theory Spec2Isabelle
  imports Main "HOL-Library.AList" "HOL-Library.Word"
begin

section \<open>The session registry and command dispatch of \<open>src/lib/server.js\<close>\<close>

text \<open>
  The server keeps one module-wide \<open>state\<close> object: three JavaScript \<open>Map\<close>s from
  session id to the browser, context and page of the session, and the id of the current
  session (or \<open>null\<close>). Each tool handler is an \<open>async\<close> function whose whole body is
  one \<open>try\<close>/\<open>catch\<close>; the \<open>catch\<close> turns the exception's message into a text block.

  The automation driver (Playwright) is outside the program. It is a parameter of the
  model: a record of functions that say, for each operation the handlers invoke, whether
  the operation resolves (\<open>Inr\<close> its value) or throws/rejects (\<open>Inl\<close> the message of
  the error). Every invocation is appended to a log, so that a theorem can say which
  driver operations a handler invoked, and in which order.

  A handler runs to completion before the next call is dispatched (the model does not
  interleave two handlers at their \<open>await\<close>s), and an operation of the driver always
  answers.
\<close>

subsection \<open>Values\<close>

text \<open>
  Objects of the driver (browser, context, page) are references; a reference is always
  truthy. The numbers of the tool parameters are counts of milliseconds and the clock
  reading is a count of milliseconds: they are integers here.
\<close>

type_synonym handle = nat
type_synonym number = int
type_synonym byte = "8 word"

text \<open>A session id is a string; \<open>state.currentSession\<close> is a string or \<open>null\<close> (\<open>None\<close>).\<close>

type_synonym session = "string option"

subsection \<open>JavaScript \<open>Map\<close>\<close>

text \<open>
  A \<open>Map\<close> iterates in insertion order, \<open>set\<close> on a present key replaces the value in
  place, and any value, also \<open>null\<close>, may be used as a key: an association list with keys
  of type \<^typ>\<open>session\<close>.
\<close>

type_synonym 'v js_map = "(session \<times> 'v) list"

definition Map_get :: "session \<Rightarrow> 'v js_map \<Rightarrow> 'v option" where
  "Map_get k m = map_of m k"

definition Map_set :: "session \<Rightarrow> 'v \<Rightarrow> 'v js_map \<Rightarrow> 'v js_map" where
  "Map_set k v m = AList.update k v m"

definition Map_delete :: "session \<Rightarrow> 'v js_map \<Rightarrow> 'v js_map" where
  "Map_delete k m = AList.delete k m"

definition Map_clear :: "'v js_map \<Rightarrow> 'v js_map" where
  "Map_clear m = []"

definition Map_has :: "session \<Rightarrow> 'v js_map \<Rightarrow> bool" where
  "Map_has k m = (k \<in> set (map fst m))"

subsection \<open>Server state\<close>

record state =
  browsers :: "handle js_map"
  contexts :: "handle js_map"
  pages :: "handle js_map"
  currentSession :: session

definition initial_state :: state where
  "initial_state = \<lparr>browsers = [], contexts = [], pages = [], currentSession = None\<rparr>"

subsection \<open>Tool parameters\<close>

record viewport =
  width :: "number option"
  height :: "number option"

record options =
  headless :: "bool option"
  viewport :: "viewport option"
  userAgent :: "string option"
  userDataDir :: "string option"
  channel :: "string option"

text \<open>The \<open>options\<close> argument of \<open>start_browser\<close>: omitted, \<open>null\<close>, or an object.\<close>

datatype options_arg = Undefined | Null | Obj options

definition empty_options :: options where
  "empty_options = \<lparr>headless = None, viewport = None, userAgent = None,
     userDataDir = None, channel = None\<rparr>"

text \<open>\<open>browserOptionsSchema\<close>: \<open>z.object({...}).optional().nullable().default({})\<close>.\<close>

definition browserOptionsSchema :: "options_arg \<Rightarrow> options_arg" where
  "browserOptionsSchema a = (case a of Undefined \<Rightarrow> Obj empty_options | Null \<Rightarrow> Null | Obj opts \<Rightarrow> Obj opts)"

datatype tool_call =
    Start_browser string options_arg
  | Navigate string "string option"
  | Get_current_url
  | Refresh_browser "number option"
  | Sleep "number option"
  | Find_element string "number option"
  | Click_element string "number option"
  | Send_keys string string "number option"
  | Get_element_text string "number option"
  | Hover string "number option"
  | Drag_and_drop string string "number option"
  | Double_click string "number option"
  | Right_click string "number option"
  | Press_key string
  | Upload_file string string "number option"
  | Take_screenshot "string option" "bool option"
  | Get_page_source "number option"
  | Close_session

subsection \<open>The automation driver\<close>

record launch_options =
  lo_headless :: bool
  lo_args :: "string list option"
  lo_channel :: "string option"

record context_options =
  co_viewport :: "viewport option"
  co_userAgent :: "string option"

record screenshot_options =
  so_path :: "string option"
  so_fullPage :: bool
  so_type :: string

text \<open>The operations on a page whose resolved value the handlers do not read.\<close>

datatype page_op =
    Goto string string
  | Reload
  | WaitForTimeout number
  | WaitForSelector string number
  | Click string "string option" number
  | Fill string string number
  | HoverOver string number
  | DragDrop string string number
  | Dblclick string number
  | KeyboardPress string
  | SetInputFiles string string number

datatype driver_call =
    Launch string launch_options
  | NewContext handle context_options
  | NewPage handle
  | PageDo handle page_op
  | PageUrl handle
  | TextContent handle string number
  | Screenshot handle screenshot_options
  | Evaluate handle
  | BrowserClose handle

record driver =
  launch :: "string \<Rightarrow> launch_options \<Rightarrow> string + handle"
  newContext :: "handle \<Rightarrow> context_options \<Rightarrow> string + handle"
  newPage :: "handle \<Rightarrow> string + handle"
  page_do :: "handle \<Rightarrow> page_op \<Rightarrow> string + unit"
  page_url :: "handle \<Rightarrow> string + string"
  textContent :: "handle \<Rightarrow> string \<Rightarrow> number \<Rightarrow> string + string option"
  screenshot :: "handle \<Rightarrow> screenshot_options \<Rightarrow> string + byte list"
  evaluate :: "handle \<Rightarrow> string + string"
  browser_close :: "handle \<Rightarrow> string + unit"
  date_now :: nat

subsection \<open>Running a \<open>try\<close> block\<close>

text \<open>
  The value of a (part of a) \<open>try\<close> block: \<open>Inl\<close> the message of the exception that
  left it, or \<open>Inr\<close> its value; and the driver operations invoked so far.
\<close>

type_synonym 'a io = "(string + 'a) \<times> driver_call list"

definition ret :: "'a \<Rightarrow> 'a io" where
  "ret x = (Inr x, [])"

definition throw :: "string \<Rightarrow> 'a io" where
  "throw msg = (Inl msg, [])"

definition invoke :: "driver_call \<Rightarrow> string + 'a \<Rightarrow> 'a io" where
  "invoke c r = (r, [c])"

definition bind :: "'a io \<Rightarrow> ('a \<Rightarrow> 'b io) \<Rightarrow> 'b io" where
  "bind m f = (case m of
       (Inl msg, l) \<Rightarrow> (Inl msg, l)
     | (Inr x, l) \<Rightarrow> (case f x of (r, l') \<Rightarrow> (r, l @ l')))"

subsection \<open>Result envelope\<close>

record content_block =
  ctype :: string
  ctext :: string

definition text_block :: "string \<Rightarrow> content_block" where
  "text_block t = \<lparr>ctype = ''text'', ctext = t\<rparr>"

text \<open>What a tool call leaves behind: the returned \<open>content\<close>, the state, the driver log.\<close>

record outcome =
  envelope :: "content_block list"
  post :: state
  calls :: "driver_call list"

text \<open>
  \<open>try { ... } catch (e) { return { content: [{ type: "text", text: prefix + e.message }] } }\<close>:
  the state assignments of every handler come after its last driver operation, so a
  \<open>try\<close> block that throws leaves the state as it was.
\<close>

definition catch :: "string \<Rightarrow> state \<Rightarrow> (content_block list \<times> state) io \<Rightarrow> outcome" where
  "catch prefix s m = (case m of
       (Inl msg, l) \<Rightarrow> \<lparr>envelope = [text_block (prefix @ msg)], post = s, calls = l\<rparr>
     | (Inr (c, s'), l) \<Rightarrow> \<lparr>envelope = c, post = s', calls = l\<rparr>)"

subsection \<open>Strings\<close>

text \<open>Template literals print an integer in decimal.\<close>

definition digit_char :: "nat \<Rightarrow> char" where
  "digit_char d = ''0123456789'' ! (d mod 10)"

function show_nat :: "nat \<Rightarrow> string" where
  "show_nat n = (if n < 10 then [digit_char n] else show_nat (n div 10) @ [digit_char (n mod 10)])"
  by pat_completeness auto
termination
  by (relation "measure id") auto

definition show_number :: "number \<Rightarrow> string" where
  "show_number i = (if i < 0 then CHR ''-'' # show_nat (nat (- i)) else show_nat (nat i))"

text \<open>\<open>String.prototype.endsWith\<close>.\<close>

definition endsWith :: "string \<Rightarrow> string \<Rightarrow> bool" where
  "endsWith s suf = (length suf \<le> length s \<and> drop (length s - length suf) s = suf)"

text \<open>A string is truthy when it is not empty; \<open>undefined\<close> is falsy.\<close>

definition truthy :: "string option \<Rightarrow> bool" where
  "truthy x = (case x of None \<Rightarrow> False | Some t \<Rightarrow> t \<noteq> [])"

text \<open>\<open>Buffer.prototype.toString("base64")\<close>: the standard alphabet, padded with \<open>=\<close>.\<close>

definition b64_char :: "nat \<Rightarrow> char" where
  "b64_char n =
     ''ABCDEFGHIJKLMNOPQRSTUVWXYZabcdefghijklmnopqrstuvwxyz0123456789+/'' ! (n mod 64)"

fun base64 :: "byte list \<Rightarrow> string" where
  "base64 [] = []"
| "base64 [a] =
     (let n = unat a * 65536
      in [b64_char (n div 262144), b64_char (n div 4096), CHR ''='', CHR ''=''])"
| "base64 [a, b] =
     (let n = unat a * 65536 + unat b * 256
      in [b64_char (n div 262144), b64_char (n div 4096), b64_char (n div 64), CHR ''=''])"
| "base64 (a # b # c # rest) =
     (let n = unat a * 65536 + unat b * 256 + unat c
      in [b64_char (n div 262144), b64_char (n div 4096), b64_char (n div 64), b64_char n]
         @ base64 rest)"

subsection \<open>Helper functions\<close>

text \<open>A parameter with a default value: the default applies when the argument is omitted.\<close>

definition dflt :: "'a \<Rightarrow> 'a option \<Rightarrow> 'a" where
  "dflt d x = (case x of None \<Rightarrow> d | Some v \<Rightarrow> v)"

text \<open>\<open>getPage\<close>: \<open>state.pages.get(state.currentSession)\<close>, and a throw when it is falsy.\<close>

definition getPage :: "state \<Rightarrow> handle io" where
  "getPage s = (case Map_get (currentSession s) (pages s) of
       None \<Rightarrow> throw ''No active browser session''
     | Some page \<Rightarrow> ret page)"

definition do_page :: "driver \<Rightarrow> handle \<Rightarrow> page_op \<Rightarrow> unit io" where
  "do_page w page op = invoke (PageDo page op) (page_do w page op)"

text \<open>\<open>options?.field\<close>.\<close>

definition optional :: "options_arg \<Rightarrow> (options \<Rightarrow> 'a option) \<Rightarrow> 'a option" where
  "optional a f = (case a of Obj opts \<Rightarrow> f opts | _ \<Rightarrow> None)"

subsection \<open>\<open>start_browser\<close>\<close>

text \<open>The default \<open>options = {}\<close> of the handler's parameter list.\<close>

definition default_options :: "options_arg \<Rightarrow> options_arg" where
  "default_options a = (case a of Undefined \<Rightarrow> Obj empty_options | _ \<Rightarrow> a)"

definition launchOptions_of :: "options_arg \<Rightarrow> launch_options" where
  "launchOptions_of opts =
     (let lo0 = \<lparr>lo_headless = dflt False (optional opts headless),
                 lo_args = None, lo_channel = None\<rparr>;
          lo1 = (case optional opts userDataDir of
                   Some dir \<Rightarrow>
                     if dir \<noteq> [] then
                       lo0\<lparr>lo_args := Some ((''--user-data-dir='' @ dir) # dflt [] (lo_args lo0))\<rparr>
                     else lo0
                 | None \<Rightarrow> lo0);
          lo2 = (if truthy (optional opts channel)
                 then lo1\<lparr>lo_channel := optional opts channel\<rparr> else lo1)
      in lo2)"

definition contextOptions_of :: "options_arg \<Rightarrow> context_options" where
  "contextOptions_of opts =
     (let co0 = \<lparr>co_viewport = None, co_userAgent = None\<rparr>;
          co1 = (case optional opts viewport of
                   Some v \<Rightarrow> co0\<lparr>co_viewport := Some v\<rparr>
                 | None \<Rightarrow> co0);
          co2 = (if truthy (optional opts userAgent)
                 then co1\<lparr>co_userAgent := optional opts userAgent\<rparr> else co1)
      in co2)"

definition launch_browser :: "driver \<Rightarrow> string \<Rightarrow> launch_options \<Rightarrow> handle io" where
  "launch_browser w browser lo =
     (if browser = ''chromium'' then invoke (Launch ''chromium'' lo) (launch w ''chromium'' lo)
      else if browser = ''firefox'' then invoke (Launch ''firefox'' lo) (launch w ''firefox'' lo)
      else if browser = ''webkit'' then invoke (Launch ''webkit'' lo) (launch w ''webkit'' lo)
      else throw (''Unsupported browser: '' @ browser))"

definition sessionId_of :: "string \<Rightarrow> nat \<Rightarrow> string" where
  "sessionId_of browser now = browser @ ''_'' @ show_nat now"

definition start_browser_try ::
  "driver \<Rightarrow> string \<Rightarrow> options_arg \<Rightarrow> state \<Rightarrow> (content_block list \<times> state) io" where
  "start_browser_try w browser options_arg s =
     (let opts = default_options options_arg;
          launchOptions = launchOptions_of opts
      in bind (launch_browser w browser launchOptions) (\<lambda>browserInstance.
         let contextOptions = contextOptions_of opts
         in bind (invoke (NewContext browserInstance contextOptions)
                    (newContext w browserInstance contextOptions)) (\<lambda>context.
            bind (invoke (NewPage context) (newPage w context)) (\<lambda>page.
            let sessionId = sessionId_of browser (date_now w);
                s1 = s\<lparr>browsers := Map_set (Some sessionId) browserInstance (browsers s)\<rparr>;
                s2 = s1\<lparr>contexts := Map_set (Some sessionId) context (contexts s1)\<rparr>;
                s3 = s2\<lparr>pages := Map_set (Some sessionId) page (pages s2)\<rparr>;
                s4 = s3\<lparr>currentSession := Some sessionId\<rparr>
            in ret ([text_block (''Browser started with session_id: '' @ sessionId)], s4)))))"

subsection \<open>Tools on the active page\<close>

definition navigate_try ::
  "driver \<Rightarrow> string \<Rightarrow> string option \<Rightarrow> state \<Rightarrow> (content_block list \<times> state) io" where
  "navigate_try w url waitUntil_arg s =
     (let waitUntil = dflt ''load'' waitUntil_arg
      in bind (getPage s) (\<lambda>page.
         bind (do_page w page (Goto url waitUntil)) (\<lambda>_.
         ret ([text_block (''Navigated to '' @ url)], s))))"

definition get_current_url_try :: "driver \<Rightarrow> state \<Rightarrow> (content_block list \<times> state) io" where
  "get_current_url_try w s =
     bind (getPage s) (\<lambda>page.
     bind (invoke (PageUrl page) (page_url w page)) (\<lambda>currentUrl.
     ret ([text_block currentUrl], s)))"

definition refresh_browser_try ::
  "driver \<Rightarrow> number option \<Rightarrow> state \<Rightarrow> (content_block list \<times> state) io" where
  "refresh_browser_try w waitTime_arg s =
     (let waitTime = dflt 15000 waitTime_arg
      in bind (getPage s) (\<lambda>page.
         bind (do_page w page Reload) (\<lambda>_.
         bind (if waitTime > 0 then do_page w page (WaitForTimeout waitTime) else ret ()) (\<lambda>_.
         ret ([text_block (''Page refreshed and waited '' @ show_number waitTime
                 @ ''ms for content to load'')], s)))))"

definition sleep_try ::
  "driver \<Rightarrow> number option \<Rightarrow> state \<Rightarrow> (content_block list \<times> state) io" where
  "sleep_try w ms_arg s =
     (let ms = dflt 5000 ms_arg
      in bind (getPage s) (\<lambda>page.
         bind (if ms > 0 then do_page w page (WaitForTimeout ms) else ret ()) (\<lambda>_.
         ret ([text_block (''Slept for '' @ show_number ms @ ''ms'')], s))))"

definition find_element_try ::
  "driver \<Rightarrow> string \<Rightarrow> number option \<Rightarrow> state \<Rightarrow> (content_block list \<times> state) io" where
  "find_element_try w selector timeout_arg s =
     (let timeout = dflt 10000 timeout_arg
      in bind (getPage s) (\<lambda>page.
         bind (do_page w page (WaitForSelector selector timeout)) (\<lambda>_.
         ret ([text_block ''Element found''], s))))"

definition click_element_try ::
  "driver \<Rightarrow> string \<Rightarrow> number option \<Rightarrow> state \<Rightarrow> (content_block list \<times> state) io" where
  "click_element_try w selector timeout_arg s =
     (let timeout = dflt 10000 timeout_arg
      in bind (getPage s) (\<lambda>page.
         bind (do_page w page (Click selector None timeout)) (\<lambda>_.
         ret ([text_block ''Element clicked''], s))))"

definition send_keys_try ::
  "driver \<Rightarrow> string \<Rightarrow> string \<Rightarrow> number option \<Rightarrow> state \<Rightarrow> (content_block list \<times> state) io" where
  "send_keys_try w selector txt timeout_arg s =
     (let timeout = dflt 10000 timeout_arg
      in bind (getPage s) (\<lambda>page.
         bind (do_page w page (Fill selector txt timeout)) (\<lambda>_.
         ret ([text_block (''Text \"'' @ txt @ ''\" entered into element'')], s))))"

definition get_element_text_try ::
  "driver \<Rightarrow> string \<Rightarrow> number option \<Rightarrow> state \<Rightarrow> (content_block list \<times> state) io" where
  "get_element_text_try w selector timeout_arg s =
     (let timeout = dflt 10000 timeout_arg
      in bind (getPage s) (\<lambda>page.
         bind (invoke (TextContent page selector timeout) (textContent w page selector timeout))
           (\<lambda>txt.
         ret ([text_block (if truthy txt then dflt [] txt else [])], s))))"

definition hover_try ::
  "driver \<Rightarrow> string \<Rightarrow> number option \<Rightarrow> state \<Rightarrow> (content_block list \<times> state) io" where
  "hover_try w selector timeout_arg s =
     (let timeout = dflt 10000 timeout_arg
      in bind (getPage s) (\<lambda>page.
         bind (do_page w page (HoverOver selector timeout)) (\<lambda>_.
         ret ([text_block ''Hovered over element''], s))))"

definition drag_and_drop_try ::
  "driver \<Rightarrow> string \<Rightarrow> string \<Rightarrow> number option \<Rightarrow> state \<Rightarrow> (content_block list \<times> state) io" where
  "drag_and_drop_try w selector targetSelector timeout_arg s =
     (let timeout = dflt 10000 timeout_arg
      in bind (getPage s) (\<lambda>page.
         bind (do_page w page (DragDrop selector targetSelector timeout)) (\<lambda>_.
         ret ([text_block ''Drag and drop completed''], s))))"

definition double_click_try ::
  "driver \<Rightarrow> string \<Rightarrow> number option \<Rightarrow> state \<Rightarrow> (content_block list \<times> state) io" where
  "double_click_try w selector timeout_arg s =
     (let timeout = dflt 10000 timeout_arg
      in bind (getPage s) (\<lambda>page.
         bind (do_page w page (Dblclick selector timeout)) (\<lambda>_.
         ret ([text_block ''Double click performed''], s))))"

definition right_click_try ::
  "driver \<Rightarrow> string \<Rightarrow> number option \<Rightarrow> state \<Rightarrow> (content_block list \<times> state) io" where
  "right_click_try w selector timeout_arg s =
     (let timeout = dflt 10000 timeout_arg
      in bind (getPage s) (\<lambda>page.
         bind (do_page w page (Click selector (Some ''right'') timeout)) (\<lambda>_.
         ret ([text_block ''Right click performed''], s))))"

definition press_key_try ::
  "driver \<Rightarrow> string \<Rightarrow> state \<Rightarrow> (content_block list \<times> state) io" where
  "press_key_try w key s =
     bind (getPage s) (\<lambda>page.
     bind (do_page w page (KeyboardPress key)) (\<lambda>_.
     ret ([text_block (''Key '' @ [CHR 39] @ key @ [CHR 39] @ '' pressed'')], s)))"

definition upload_file_try ::
  "driver \<Rightarrow> string \<Rightarrow> string \<Rightarrow> number option \<Rightarrow> state \<Rightarrow> (content_block list \<times> state) io" where
  "upload_file_try w selector filePath timeout_arg s =
     (let timeout = dflt 10000 timeout_arg
      in bind (getPage s) (\<lambda>page.
         bind (do_page w page (SetInputFiles selector filePath timeout)) (\<lambda>_.
         ret ([text_block ''File upload initiated''], s))))"

definition screenshot_options_of :: "string option \<Rightarrow> bool \<Rightarrow> screenshot_options" where
  "screenshot_options_of outputPath fullPage =
     \<lparr>so_path = outputPath, so_fullPage = fullPage,
      so_type = (if (case outputPath of None \<Rightarrow> False | Some p \<Rightarrow> endsWith p ''.jpg'')
                 then ''jpeg'' else ''png'')\<rparr>"

definition take_screenshot_try ::
  "driver \<Rightarrow> string option \<Rightarrow> bool option \<Rightarrow> state \<Rightarrow> (content_block list \<times> state) io" where
  "take_screenshot_try w outputPath fullPage_arg s =
     (let fullPage = dflt False fullPage_arg
      in bind (getPage s) (\<lambda>page.
         bind (invoke (Screenshot page (screenshot_options_of outputPath fullPage))
                 (screenshot w page (screenshot_options_of outputPath fullPage))) (\<lambda>shot.
         if truthy outputPath then
           ret ([text_block (''Screenshot saved to '' @ dflt [] outputPath)], s)
         else
           ret ([text_block ''Screenshot captured as base64:'', text_block (base64 shot)], s))))"

definition get_page_source_try ::
  "driver \<Rightarrow> number option \<Rightarrow> state \<Rightarrow> (content_block list \<times> state) io" where
  "get_page_source_try w delay_arg s =
     (let delay = dflt 0 delay_arg
      in bind (getPage s) (\<lambda>page.
         bind (if delay > 0 then do_page w page (WaitForTimeout delay) else ret ()) (\<lambda>_.
         bind (invoke (Evaluate page) (evaluate w page)) (\<lambda>bodySource.
         ret ([text_block bodySource], s)))))"

subsection \<open>\<open>close_session\<close>\<close>

text \<open>A template literal prints \<open>null\<close> as the four letters.\<close>

definition show_session :: "session \<Rightarrow> string" where
  "show_session k = (case k of None \<Rightarrow> ''null'' | Some sessionId \<Rightarrow> sessionId)"

definition close_session_try :: "driver \<Rightarrow> state \<Rightarrow> (content_block list \<times> state) io" where
  "close_session_try w s =
     bind (case Map_get (currentSession s) (browsers s) of
             Some browser \<Rightarrow> invoke (BrowserClose browser) (browser_close w browser)
           | None \<Rightarrow> ret ()) (\<lambda>_.
     let s1 = s\<lparr>browsers := Map_delete (currentSession s) (browsers s)\<rparr>;
         s2 = s1\<lparr>contexts := Map_delete (currentSession s1) (contexts s1)\<rparr>;
         s3 = s2\<lparr>pages := Map_delete (currentSession s2) (pages s2)\<rparr>;
         sessionId = currentSession s3;
         s4 = s3\<lparr>currentSession := None\<rparr>
     in ret ([text_block (''Browser session '' @ show_session sessionId @ '' closed'')], s4))"

subsection \<open>Dispatch\<close>

fun tool_try :: "driver \<Rightarrow> tool_call \<Rightarrow> state \<Rightarrow> (content_block list \<times> state) io" where
  "tool_try w (Start_browser browser opts) s = start_browser_try w browser opts s"
| "tool_try w (Navigate url waitUntil) s = navigate_try w url waitUntil s"
| "tool_try w Get_current_url s = get_current_url_try w s"
| "tool_try w (Refresh_browser waitTime) s = refresh_browser_try w waitTime s"
| "tool_try w (Sleep ms) s = sleep_try w ms s"
| "tool_try w (Find_element selector timeout) s = find_element_try w selector timeout s"
| "tool_try w (Click_element selector timeout) s = click_element_try w selector timeout s"
| "tool_try w (Send_keys selector txt timeout) s = send_keys_try w selector txt timeout s"
| "tool_try w (Get_element_text selector timeout) s = get_element_text_try w selector timeout s"
| "tool_try w (Hover selector timeout) s = hover_try w selector timeout s"
| "tool_try w (Drag_and_drop selector target timeout) s =
     drag_and_drop_try w selector target timeout s"
| "tool_try w (Double_click selector timeout) s = double_click_try w selector timeout s"
| "tool_try w (Right_click selector timeout) s = right_click_try w selector timeout s"
| "tool_try w (Press_key key) s = press_key_try w key s"
| "tool_try w (Upload_file selector filePath timeout) s =
     upload_file_try w selector filePath timeout s"
| "tool_try w (Take_screenshot outputPath fullPage) s = take_screenshot_try w outputPath fullPage s"
| "tool_try w (Get_page_source delay) s = get_page_source_try w delay s"
| "tool_try w Close_session s = close_session_try w s"

text \<open>The text each handler's \<open>catch\<close> puts before \<open>e.message\<close>.\<close>

fun catch_prefix :: "tool_call \<Rightarrow> string" where
  "catch_prefix (Start_browser _ _) = ''Error starting browser: ''"
| "catch_prefix (Navigate _ _) = ''Error navigating: ''"
| "catch_prefix Get_current_url = ''Error getting current URL: ''"
| "catch_prefix (Refresh_browser _) = ''Error refreshing page: ''"
| "catch_prefix (Sleep _) = ''Error sleeping: ''"
| "catch_prefix (Find_element _ _) = ''Error finding element: ''"
| "catch_prefix (Click_element _ _) = ''Error clicking element: ''"
| "catch_prefix (Send_keys _ _ _) = ''Error entering text: ''"
| "catch_prefix (Get_element_text _ _) = ''Error getting element text: ''"
| "catch_prefix (Hover _ _) = ''Error hovering over element: ''"
| "catch_prefix (Drag_and_drop _ _ _) = ''Error performing drag and drop: ''"
| "catch_prefix (Double_click _ _) = ''Error performing double click: ''"
| "catch_prefix (Right_click _ _) = ''Error performing right click: ''"
| "catch_prefix (Press_key _) = ''Error pressing key: ''"
| "catch_prefix (Upload_file _ _ _) = ''Error uploading file: ''"
| "catch_prefix (Take_screenshot _ _) = ''Error taking screenshot: ''"
| "catch_prefix (Get_page_source _) = ''Error getting page source: ''"
| "catch_prefix Close_session = ''Error closing session: ''"

definition call_tool :: "driver \<Rightarrow> tool_call \<Rightarrow> state \<Rightarrow> outcome" where
  "call_tool w c s = catch (catch_prefix c) s (tool_try w c s)"

text \<open>The tools whose handler starts with \<open>getPage()\<close>.\<close>

fun requires_page :: "tool_call \<Rightarrow> bool" where
  "requires_page (Start_browser _ _) = False"
| "requires_page Close_session = False"
| "requires_page _ = True"

subsection \<open>The status resource\<close>

definition browser_status :: "state \<Rightarrow> string" where
  "browser_status s =
     (if truthy (currentSession s)
      then ''Active browser session: '' @ show_session (currentSession s)
      else ''No active browser session'')"

subsection \<open>Shutdown\<close>

text \<open>
  \<open>cleanup\<close>: the loop over \<open>state.browsers\<close> in insertion order, each \<open>close\<close> in its
  own \<open>try\<close>/\<open>catch\<close> that prints to the console, then the four assignments and
  \<open>process.exit(0)\<close>.
\<close>

record shutdown =
  final :: state
  closes :: "driver_call list"
  console :: "(string \<times> string) list"
  exit_status :: int

fun close_all :: "driver \<Rightarrow> handle js_map \<Rightarrow> driver_call list \<times> (string \<times> string) list" where
  "close_all w [] = ([], [])"
| "close_all w ((sessionId, browser) # rest) =
     (let attempt = invoke (BrowserClose browser) (browser_close w browser);
          err = (case fst attempt of
                   Inl e \<Rightarrow> [(''Error closing browser session '' @ show_session sessionId @ '':'', e)]
                 | Inr _ \<Rightarrow> []);
          (cs, errs) = close_all w rest
      in (snd attempt @ cs, err @ errs))"

definition cleanup :: "driver \<Rightarrow> state \<Rightarrow> shutdown" where
  "cleanup w s =
     (let (cs, errs) = close_all w (browsers s);
          s1 = s\<lparr>browsers := Map_clear (browsers s)\<rparr>;
          s2 = s1\<lparr>contexts := Map_clear (contexts s1)\<rparr>;
          s3 = s2\<lparr>pages := Map_clear (pages s2)\<rparr>;
          s4 = s3\<lparr>currentSession := None\<rparr>
      in \<lparr>final = s4, closes = cs, console = errs, exit_status = 0\<rparr>)"

datatype signal = SIGTERM | SIGINT

fun process_on :: "signal \<Rightarrow> driver \<Rightarrow> state \<Rightarrow> shutdown" where
  "process_on SIGTERM = cleanup"
| "process_on SIGINT = cleanup"

subsection \<open>Reachable states\<close>

inductive reachable :: "state \<Rightarrow> bool" where
  start: "reachable initial_state"
| tool: "reachable s \<Longrightarrow> reachable (post (call_tool w c s))"
| signal: "reachable s \<Longrightarrow> reachable (final (process_on sig w s))"

subsection \<open>Predicates on states and envelopes\<close>

text \<open>The pointer, when it holds an id, holds a key of all three maps.\<close>

definition pointer_valid :: "state \<Rightarrow> bool" where
  "pointer_valid s = (case currentSession s of
       None \<Rightarrow> True
     | Some sessionId \<Rightarrow> Map_has (Some sessionId) (browsers s) \<and>
         Map_has (Some sessionId) (contexts s) \<and> Map_has (Some sessionId) (pages s))"

text \<open>\<open>null\<close> is not a key of any of the three maps, and the pointer is valid.\<close>

definition registry_inv :: "state \<Rightarrow> bool" where
  "registry_inv s = (\<not> Map_has None (browsers s) \<and> \<not> Map_has None (contexts s) \<and>
     \<not> Map_has None (pages s) \<and> pointer_valid s)"

text \<open>
  An envelope reports the missing session when one of its blocks ends with the message
  that \<open>getPage\<close> throws.
\<close>

definition reports_no_active_session :: "content_block list \<Rightarrow> bool" where
  "reports_no_active_session env =
     list_ex (\<lambda>b. endsWith (ctext b) ''No active browser session'') env"


subsection \<open>Concrete drivers and states\<close>

text \<open>
  A driver in which every operation resolves: the browser, context and page it hands out
  are the references 1, 2 and 3, a screenshot is the first four bytes of the PNG
  signature, an element has no text, and the clock reads 5.
\<close>

definition ok_driver :: driver where
  "ok_driver = \<lparr>launch = (\<lambda>_ _. Inr 1), newContext = (\<lambda>_ _. Inr 2), newPage = (\<lambda>_. Inr 3),
     page_do = (\<lambda>_ _. Inr ()), page_url = (\<lambda>_. Inr ''about:blank''),
     textContent = (\<lambda>_ _ _. Inr None), screenshot = (\<lambda>_ _. Inr [0x89, 0x50, 0x4E, 0x47]),
     evaluate = (\<lambda>_. Inr ''<body></body>''), browser_close = (\<lambda>_. Inr ()), date_now = 5\<rparr>"

text \<open>The same driver handing out the references 11, 12 and 13.\<close>

definition other_driver :: driver where
  "other_driver = ok_driver\<lparr>launch := (\<lambda>_ _. Inr 11), newContext := (\<lambda>_ _. Inr 12),
     newPage := (\<lambda>_. Inr 13)\<rparr>"

text \<open>A driver in which closing the browser \<open>h\<close> rejects.\<close>

definition close_fails :: "handle \<Rightarrow> driver" where
  "close_fails h = ok_driver\<lparr>browser_close :=
     (\<lambda>b. if b = h then Inl ''Target closed'' else Inr ())\<rparr>"

text \<open>The state after one \<open>start_browser\<close>, and after a second one.\<close>

definition started :: state where
  "started = post (call_tool ok_driver (Start_browser ''chromium'' Undefined) initial_state)"

definition two_sessions :: state where
  "two_sessions = post (call_tool other_driver (Start_browser ''firefox'' Null) started)"

section \<open>Properties\<close>

subsection \<open>Maps\<close>

lemma Map_has_set: "Map_has k (Map_set k' v m) = (k = k' \<or> Map_has k m)"
  by (auto simp: Map_has_def Map_set_def dom_update)

lemma Map_has_delete: "Map_has k (Map_delete k' m) = (k \<noteq> k' \<and> Map_has k m)"
  by (auto simp: Map_has_def Map_delete_def delete_keys)

lemma Map_delete_absent: "\<not> Map_has k m \<Longrightarrow> Map_delete k m = m"
  by (simp add: Map_has_def Map_delete_def)

lemma Map_get_absent: "\<not> Map_has k m \<Longrightarrow> Map_get k m = None"
  by (simp add: Map_has_def Map_get_def map_of_eq_None_iff)

lemma Map_get_set: "Map_get k (Map_set k' v m) = (if k = k' then Some v else Map_get k m)"
  by (simp add: Map_get_def Map_set_def update_conv')

subsection \<open>\<open>try\<close> blocks\<close>

lemmas io_defs = bind_def ret_def throw_def invoke_def

lemmas page_try_defs =
  navigate_try_def get_current_url_try_def refresh_browser_try_def sleep_try_def
  find_element_try_def click_element_try_def send_keys_try_def get_element_text_try_def
  hover_try_def drag_and_drop_try_def double_click_try_def right_click_try_def
  press_key_try_def upload_file_try_def take_screenshot_try_def get_page_source_try_def

lemma bind_throw: "bind (throw msg) f = throw msg"
  by (simp add: io_defs)

lemma bind_ret: "bind (ret x) f = f x"
  by (simp add: io_defs split: prod.splits)

lemma bind_invoke_Inr: "bind (invoke c (Inr x)) f = (fst (f x), c # snd (f x))"
  by (simp add: io_defs split: prod.splits)

lemma bind_invoke_Inl: "bind (invoke c (Inl e)) f = (Inl e, [c])"
  by (simp add: io_defs)

lemma bind_InrE:
  assumes "bind m f = (Inr y, l)"
  obtains x l1 l2 where "m = (Inr x, l1)" and "f x = (Inr y, l2)" and "l = l1 @ l2"
  using assms by (auto simp: bind_def split: prod.splits sum.splits)

lemma post_catch_cases:
  "post (catch prefix s m) = s \<or> (\<exists>c l. m = (Inr (c, post (catch prefix s m)), l))"
  by (cases m) (auto simp: catch_def split: sum.splits)

lemma getPage_None:
  "Map_get (currentSession s) (pages s) = None \<Longrightarrow> getPage s = throw ''No active browser session''"
  by (simp add: getPage_def)

lemma getPage_Some: "Map_get (currentSession s) (pages s) = Some p \<Longrightarrow> getPage s = ret p"
  by (simp add: getPage_def)

subsection \<open>What each handler does to the state\<close>

lemma page_tool_post: "requires_page c \<Longrightarrow> post (call_tool w c s) = s"
  by (cases c)
    (auto simp: call_tool_def catch_def io_defs getPage_def do_page_def page_try_defs
       Let_def split: sum.splits option.splits prod.splits if_splits)

lemma page_tool_no_page:
  "requires_page c \<Longrightarrow> Map_get (currentSession s) (pages s) = None \<Longrightarrow>
   tool_try w c s = throw ''No active browser session''"
  by (cases c) (simp_all add: page_try_defs getPage_None bind_throw Let_def)

lemma start_browser_try_Inr:
  assumes "start_browser_try w browser opts s = (Inr (c, s'), l)"
  shows "\<exists>b cx p. s' =
      s\<lparr>browsers := Map_set (Some (sessionId_of browser (date_now w))) b (browsers s),
        contexts := Map_set (Some (sessionId_of browser (date_now w))) cx (contexts s),
        pages := Map_set (Some (sessionId_of browser (date_now w))) p (pages s),
        currentSession := Some (sessionId_of browser (date_now w))\<rparr>"
  using assms unfolding start_browser_try_def Let_def
  by (elim bind_InrE) (auto simp: ret_def)

lemma start_browser_post:
  "post (call_tool w (Start_browser browser opts) s) = s \<or>
   (\<exists>b c p. post (call_tool w (Start_browser browser opts) s) =
      s\<lparr>browsers := Map_set (Some (sessionId_of browser (date_now w))) b (browsers s),
        contexts := Map_set (Some (sessionId_of browser (date_now w))) c (contexts s),
        pages := Map_set (Some (sessionId_of browser (date_now w))) p (pages s),
        currentSession := Some (sessionId_of browser (date_now w))\<rparr>)"
  using post_catch_cases [of "catch_prefix (Start_browser browser opts)" s
      "start_browser_try w browser opts s"]
  by (auto simp: call_tool_def dest: start_browser_try_Inr)

lemma close_session_try_Inr:
  assumes "close_session_try w s = (Inr (c, s'), l)"
  shows "s' = s\<lparr>browsers := Map_delete (currentSession s) (browsers s),
        contexts := Map_delete (currentSession s) (contexts s),
        pages := Map_delete (currentSession s) (pages s),
        currentSession := None\<rparr>"
  using assms unfolding close_session_try_def Let_def
  by (elim bind_InrE) (auto simp: ret_def)

lemma close_session_post:
  "post (call_tool w Close_session s) = s \<or>
   post (call_tool w Close_session s) =
      s\<lparr>browsers := Map_delete (currentSession s) (browsers s),
        contexts := Map_delete (currentSession s) (contexts s),
        pages := Map_delete (currentSession s) (pages s),
        currentSession := None\<rparr>"
  using post_catch_cases [of "catch_prefix Close_session" s "close_session_try w s"]
  by (auto simp: call_tool_def dest: close_session_try_Inr)

lemma launch_browser_supported:
  assumes "browser = ''chromium'' \<or> browser = ''firefox'' \<or> browser = ''webkit''"
  shows "launch_browser w browser lo = invoke (Launch browser lo) (launch w browser lo)"
  using assms by (auto simp: launch_browser_def)

lemma start_browser_resolved:
  assumes "browser = ''chromium'' \<or> browser = ''firefox'' \<or> browser = ''webkit''"
    and "launch w browser (launchOptions_of (default_options opts)) = Inr b"
    and "newContext w b (contextOptions_of (default_options opts)) = Inr cx"
    and "newPage w cx = Inr p"
  shows "call_tool w (Start_browser browser opts) s =
     \<lparr>envelope = [text_block (''Browser started with session_id: '' @
                   sessionId_of browser (date_now w))],
      post = s\<lparr>browsers := Map_set (Some (sessionId_of browser (date_now w))) b (browsers s),
               contexts := Map_set (Some (sessionId_of browser (date_now w))) cx (contexts s),
               pages := Map_set (Some (sessionId_of browser (date_now w))) p (pages s),
               currentSession := Some (sessionId_of browser (date_now w))\<rparr>,
      calls = [Launch browser (launchOptions_of (default_options opts)),
               NewContext b (contextOptions_of (default_options opts)), NewPage cx]\<rparr>"
  using assms(2,3,4)
  by (simp add: call_tool_def start_browser_try_def launch_browser_supported [OF assms(1)]
        bind_invoke_Inr Let_def)
     (simp add: ret_def catch_def)

lemma calls_catch: "calls (catch prefix s m) = snd m"
  by (cases m) (auto simp: catch_def split: sum.splits)

lemma snd_bind_invoke: "\<exists>rest. snd (bind (invoke c r) f) = c # rest"
  by (cases r) (simp_all add: bind_invoke_Inl bind_invoke_Inr)

text \<open>
  Whatever the driver answers, the first operation of \<open>start_browser\<close> with a supported
  kind is the launch with the options built from the argument, and the second, when the
  launch resolves, is the new context with the context options built from it.
\<close>

lemma start_browser_launches:
  assumes "browser = ''chromium'' \<or> browser = ''firefox'' \<or> browser = ''webkit''"
  shows "\<exists>rest. calls (call_tool w (Start_browser browser opts) s) =
     Launch browser (launchOptions_of (default_options opts)) # rest"
  using snd_bind_invoke
  by (simp add: call_tool_def calls_catch start_browser_try_def
      launch_browser_supported [OF assms] Let_def)

lemma start_browser_creates_context:
  assumes "browser = ''chromium'' \<or> browser = ''firefox'' \<or> browser = ''webkit''"
    and "launch w browser (launchOptions_of (default_options opts)) = Inr b"
  shows "\<exists>rest. calls (call_tool w (Start_browser browser opts) s) =
     Launch browser (launchOptions_of (default_options opts)) #
     NewContext b (contextOptions_of (default_options opts)) # rest"
  using snd_bind_invoke assms(2)
  by (simp add: call_tool_def calls_catch start_browser_try_def
      launch_browser_supported [OF assms(1)] bind_invoke_Inr Let_def)

lemma cleanup_final: "final (process_on sig w s) = initial_state"
  by (cases sig)
    (simp_all add: cleanup_def initial_state_def Map_clear_def Let_def split: prod.splits)

subsection \<open>The invariant of the reachable states\<close>

lemma registry_inv_initial: "registry_inv initial_state"
  by (simp add: registry_inv_def pointer_valid_def initial_state_def Map_has_def)

lemma registry_inv_tool: "registry_inv s \<Longrightarrow> registry_inv (post (call_tool w c s))"
proof (cases "requires_page c")
  case True
  assume "registry_inv s"
  with True show ?thesis by (simp add: page_tool_post)
next
  case False
  assume inv: "registry_inv s"
  from False consider (start) browser opts where "c = Start_browser browser opts"
    | (close) "c = Close_session"
    by (cases c) auto
  then show ?thesis
  proof cases
    case start
    from start_browser_post [of w browser opts s] show ?thesis
    proof (elim disjE exE)
      assume "post (call_tool w (Start_browser browser opts) s) = s"
      with inv show ?thesis by (simp add: start)
    next
      fix b c' p
      assume "post (call_tool w (Start_browser browser opts) s) =
        s\<lparr>browsers := Map_set (Some (sessionId_of browser (date_now w))) b (browsers s),
          contexts := Map_set (Some (sessionId_of browser (date_now w))) c' (contexts s),
          pages := Map_set (Some (sessionId_of browser (date_now w))) p (pages s),
          currentSession := Some (sessionId_of browser (date_now w))\<rparr>"
      with inv show ?thesis
        by (simp add: start registry_inv_def pointer_valid_def Map_has_set)
    qed
  next
    case close
    from close_session_post [of w s] show ?thesis
    proof (elim disjE)
      assume "post (call_tool w Close_session s) = s"
      with inv show ?thesis by (simp add: close)
    next
      assume "post (call_tool w Close_session s) =
        s\<lparr>browsers := Map_delete (currentSession s) (browsers s),
          contexts := Map_delete (currentSession s) (contexts s),
          pages := Map_delete (currentSession s) (pages s),
          currentSession := None\<rparr>"
      with inv show ?thesis
        by (simp add: close registry_inv_def pointer_valid_def Map_has_delete)
    qed
  qed
qed

lemma reachable_inv: "reachable s \<Longrightarrow> registry_inv s"
proof (induction rule: reachable.induct)
  case start
  show ?case by (rule registry_inv_initial)
next
  case (tool s w c)
  then show ?case by (simp add: registry_inv_tool)
next
  case (signal s sig w)
  show ?case by (simp add: cleanup_final registry_inv_initial)
qed

subsection \<open>The concrete states\<close>

lemma started_eq: "started =
   \<lparr>browsers = [(Some ''chromium_5'', 1)], contexts = [(Some ''chromium_5'', 2)],
    pages = [(Some ''chromium_5'', 3)], currentSession = Some ''chromium_5''\<rparr>"
  by (simp add: started_def call_tool_def catch_def start_browser_try_def io_defs ok_driver_def
      launch_browser_def default_options_def launchOptions_of_def contextOptions_of_def
      optional_def empty_options_def dflt_def truthy_def sessionId_of_def initial_state_def
      Map_set_def digit_char_def Let_def)

lemma two_sessions_eq: "two_sessions =
   \<lparr>browsers = [(Some ''chromium_5'', 1), (Some ''firefox_5'', 11)],
    contexts = [(Some ''chromium_5'', 2), (Some ''firefox_5'', 12)],
    pages = [(Some ''chromium_5'', 3), (Some ''firefox_5'', 13)],
    currentSession = Some ''firefox_5''\<rparr>"
  by (simp add: two_sessions_def started_eq call_tool_def catch_def start_browser_try_def io_defs
      ok_driver_def other_driver_def
      launch_browser_def default_options_def launchOptions_of_def contextOptions_of_def
      optional_def empty_options_def dflt_def truthy_def sessionId_of_def
      Map_set_def digit_char_def Let_def)

lemma reachable_started: "reachable started"
  unfolding started_def by (rule reachable.tool [OF reachable.start])

subsection \<open>Tool calls without an active session\<close>

text \<open>
  Claim C1. In a reachable state whose pointer is \<open>null\<close>, each of the sixteen tools that
  start with \<open>getPage()\<close> returns the single text block made of its own error prefix and
  the message \<open>No active browser session\<close>, invokes no operation of the driver, and
  leaves the state, so the three maps of the registry, as it was.
\<close>

theorem no_active_session_failure:
  assumes "reachable s" and "currentSession s = None" and "requires_page c"
  shows "call_tool w c s =
     \<lparr>envelope = [text_block (catch_prefix c @ ''No active browser session'')],
      post = s, calls = []\<rparr>"
proof -
  from assms(1) have "\<not> Map_has None (pages s)"
    using reachable_inv [of s] by (simp add: registry_inv_def)
  with assms(2) have "Map_get (currentSession s) (pages s) = None"
    by (simp add: Map_get_absent)
  with assms(3) have "tool_try w c s = throw ''No active browser session''"
    by (rule page_tool_no_page)
  then show ?thesis
    by (simp add: call_tool_def catch_def throw_def)
qed

theorem no_active_session_failure_witness:
  "reachable initial_state \<and> currentSession initial_state = None \<and>
   requires_page (Click_element ''#go'' None) \<and>
   call_tool ok_driver (Click_element ''#go'' None) initial_state =
     \<lparr>envelope = [text_block ''Error clicking element: No active browser session''],
      post = initial_state, calls = []\<rparr>"
  using no_active_session_failure [OF reachable.start, of "Click_element ''#go'' None" ok_driver]
  by (simp add: reachable.start) (simp add: initial_state_def)

subsection \<open>The pointer is never dangling\<close>

text \<open>
  Claim C4. In every state reached from the empty state by tool calls and by the
  shutdown cleanup, with any behaviour of the driver, a pointer that holds a session id
  holds a key of \<open>browsers\<close>, of \<open>contexts\<close> and of \<open>pages\<close>.
\<close>

theorem pointer_never_dangling:
  assumes "reachable s" and "currentSession s = Some sessionId"
  shows "Map_has (Some sessionId) (browsers s) \<and> Map_has (Some sessionId) (contexts s) \<and>
         Map_has (Some sessionId) (pages s)"
  using reachable_inv [OF assms(1)] assms(2)
  by (simp add: registry_inv_def pointer_valid_def)

theorem pointer_never_dangling_witness:
  "reachable started \<and> currentSession started = Some ''chromium_5'' \<and>
   Map_has (Some ''chromium_5'') (browsers started) \<and>
   Map_has (Some ''chromium_5'') (contexts started) \<and>
   Map_has (Some ''chromium_5'') (pages started)"
proof -
  have p: "currentSession started = Some ''chromium_5''"
    by (simp add: started_eq)
  from pointer_never_dangling [OF reachable_started p] reachable_started p
  show ?thesis by simp
qed

subsection \<open>Shutdown\<close>

lemma close_all_calls:
  "fst (close_all w m) = map (\<lambda>(sessionId, browser). BrowserClose browser) m"
  by (induction m) (auto simp: invoke_def Let_def split: prod.splits)

lemma close_all_console: "snd (close_all w m) =
   concat (map (\<lambda>(sessionId, browser). case browser_close w browser of
        Inl e \<Rightarrow> [(''Error closing browser session '' @ show_session sessionId @ '':'', e)]
      | Inr _ \<Rightarrow> []) m)"
  by (induction m) (auto simp: invoke_def Let_def split: prod.splits sum.splits)

text \<open>
  Claim C6. On \<open>SIGINT\<close> and on \<open>SIGTERM\<close> the cleanup invokes \<open>close\<close> on the browser
  of every entry of \<open>browsers\<close>, in order, whatever the earlier closes answered; each
  rejected close leaves one line on the console and nothing else; afterwards the three
  maps are empty, the pointer is \<open>null\<close>, and the exit status is 0.
\<close>

theorem cleanup_closes_all:
  "closes (process_on sig w s) =
     map (\<lambda>(sessionId, browser). BrowserClose browser) (browsers s) \<and>
   console (process_on sig w s) =
     concat (map (\<lambda>(sessionId, browser). case browser_close w browser of
          Inl e \<Rightarrow> [(''Error closing browser session '' @ show_session sessionId @ '':'', e)]
        | Inr _ \<Rightarrow> []) (browsers s)) \<and>
   final (process_on sig w s) =
     \<lparr>browsers = [], contexts = [], pages = [], currentSession = None\<rparr> \<and>
   exit_status (process_on sig w s) = 0"
proof -
  have "closes (cleanup w s) = fst (close_all w (browsers s))"
    and "console (cleanup w s) = snd (close_all w (browsers s))"
    and "exit_status (cleanup w s) = 0"
    and "final (cleanup w s) =
      \<lparr>browsers = [], contexts = [], pages = [], currentSession = None\<rparr>"
    by (simp_all add: cleanup_def Map_clear_def Let_def split: prod.splits)
  moreover have "process_on sig = cleanup"
    by (cases sig) simp_all
  ultimately show ?thesis
    by (simp add: close_all_calls close_all_console)
qed

text \<open>
  Two sessions, closing the first one's browser rejects: the second close is still
  invoked, one line is printed, and the state is cleared.
\<close>

lemma cleanup_one_failure:
  "closes (process_on SIGTERM (close_fails 1) two_sessions) = [BrowserClose 1, BrowserClose 11] \<and>
   console (process_on SIGTERM (close_fails 1) two_sessions) =
     [(''Error closing browser session chromium_5:'', ''Target closed'')] \<and>
   final (process_on SIGTERM (close_fails 1) two_sessions) = initial_state \<and>
   exit_status (process_on SIGTERM (close_fails 1) two_sessions) = 0"
  by (simp add: cleanup_def two_sessions_eq close_fails_def ok_driver_def invoke_def
      show_session_def Map_clear_def initial_state_def Let_def)

subsection \<open>Default options of \<open>start_browser\<close>\<close>

text \<open>
  Claim C8. With \<open>options\<close> omitted, \<open>null\<close> or \<open>{}\<close>, before or after the schema's
  default, \<open>start_browser\<close> launches with \<open>headless = false\<close>, no \<open>args\<close> and no
  \<open>channel\<close>, creates the context with no \<open>viewport\<close> and no \<open>userAgent\<close>, and the whole
  call (envelope, state, driver operations) is the same in the three cases. The handler
  hands exactly this configuration to the driver: for a supported kind its first
  operation is the launch with these launch options; when the launch resolves, its
  second is the new context with these context options; and when the context and the page
  resolve too, the call is those two operations and the new page, the success text, and
  the session registered and made current.
\<close>

theorem start_browser_default_options:
  "launchOptions_of (default_options Undefined) =
     \<lparr>lo_headless = False, lo_args = None, lo_channel = None\<rparr> \<and>
   launchOptions_of (default_options Null) = launchOptions_of (default_options Undefined) \<and>
   launchOptions_of (default_options (Obj empty_options)) =
     launchOptions_of (default_options Undefined) \<and>
   contextOptions_of (default_options Undefined) =
     \<lparr>co_viewport = None, co_userAgent = None\<rparr> \<and>
   contextOptions_of (default_options Null) = contextOptions_of (default_options Undefined) \<and>
   contextOptions_of (default_options (Obj empty_options)) =
     contextOptions_of (default_options Undefined) \<and>
   call_tool w (Start_browser browser Null) s = call_tool w (Start_browser browser Undefined) s \<and>
   call_tool w (Start_browser browser (Obj empty_options)) s =
     call_tool w (Start_browser browser Undefined) s \<and>
   call_tool w (Start_browser browser (browserOptionsSchema Undefined)) s =
     call_tool w (Start_browser browser Undefined) s \<and>
   call_tool w (Start_browser browser (browserOptionsSchema Null)) s =
     call_tool w (Start_browser browser Undefined) s \<and>
   ((browser = ''chromium'' \<or> browser = ''firefox'' \<or> browser = ''webkit'') \<and>
    (opts = Undefined \<or> opts = Null \<or> opts = Obj empty_options) \<longrightarrow>
      (\<exists>rest. calls (call_tool w (Start_browser browser opts) s) =
         Launch browser \<lparr>lo_headless = False, lo_args = None, lo_channel = None\<rparr> # rest) \<and>
      (\<forall>b. launch w browser \<lparr>lo_headless = False, lo_args = None, lo_channel = None\<rparr> = Inr b \<longrightarrow>
         (\<exists>rest. calls (call_tool w (Start_browser browser opts) s) =
            Launch browser \<lparr>lo_headless = False, lo_args = None, lo_channel = None\<rparr> #
            NewContext b \<lparr>co_viewport = None, co_userAgent = None\<rparr> # rest) \<and>
         (\<forall>cx p. newContext w b \<lparr>co_viewport = None, co_userAgent = None\<rparr> = Inr cx \<and>
              newPage w cx = Inr p \<longrightarrow>
            call_tool w (Start_browser browser opts) s =
              \<lparr>envelope = [text_block (''Browser started with session_id: '' @
                   sessionId_of browser (date_now w))],
               post = s\<lparr>browsers :=
                          Map_set (Some (sessionId_of browser (date_now w))) b (browsers s),
                        contexts :=
                          Map_set (Some (sessionId_of browser (date_now w))) cx (contexts s),
                        pages := Map_set (Some (sessionId_of browser (date_now w))) p (pages s),
                        currentSession := Some (sessionId_of browser (date_now w))\<rparr>,
               calls = [Launch browser \<lparr>lo_headless = False, lo_args = None, lo_channel = None\<rparr>,
                        NewContext b \<lparr>co_viewport = None, co_userAgent = None\<rparr>,
                        NewPage cx]\<rparr>)))"
proof -
  have lo: "launchOptions_of (Obj empty_options) =
      \<lparr>lo_headless = False, lo_args = None, lo_channel = None\<rparr>"
    "launchOptions_of Null = \<lparr>lo_headless = False, lo_args = None, lo_channel = None\<rparr>"
    by (simp_all add: launchOptions_of_def optional_def empty_options_def dflt_def truthy_def)
  have co: "contextOptions_of (Obj empty_options) = \<lparr>co_viewport = None, co_userAgent = None\<rparr>"
    "contextOptions_of Null = \<lparr>co_viewport = None, co_userAgent = None\<rparr>"
    by (simp_all add: contextOptions_of_def optional_def empty_options_def truthy_def)
  have d: "default_options Undefined = Obj empty_options" "default_options Null = Null"
    "default_options (Obj empty_options) = Obj empty_options"
    by (simp_all add: default_options_def)
  have sch: "browserOptionsSchema Undefined = Obj empty_options"
    "browserOptionsSchema Null = Null"
    by (simp_all add: browserOptionsSchema_def)
  have t: "start_browser_try w browser Null s = start_browser_try w browser Undefined s"
    "start_browser_try w browser (Obj empty_options) s = start_browser_try w browser Undefined s"
    by (simp_all add: start_browser_try_def d lo co)
  have equal: "launchOptions_of (default_options Undefined) =
     \<lparr>lo_headless = False, lo_args = None, lo_channel = None\<rparr> \<and>
   launchOptions_of (default_options Null) = launchOptions_of (default_options Undefined) \<and>
   launchOptions_of (default_options (Obj empty_options)) =
     launchOptions_of (default_options Undefined) \<and>
   contextOptions_of (default_options Undefined) =
     \<lparr>co_viewport = None, co_userAgent = None\<rparr> \<and>
   contextOptions_of (default_options Null) = contextOptions_of (default_options Undefined) \<and>
   contextOptions_of (default_options (Obj empty_options)) =
     contextOptions_of (default_options Undefined) \<and>
   call_tool w (Start_browser browser Null) s = call_tool w (Start_browser browser Undefined) s \<and>
   call_tool w (Start_browser browser (Obj empty_options)) s =
     call_tool w (Start_browser browser Undefined) s \<and>
   call_tool w (Start_browser browser (browserOptionsSchema Undefined)) s =
     call_tool w (Start_browser browser Undefined) s \<and>
   call_tool w (Start_browser browser (browserOptionsSchema Null)) s =
     call_tool w (Start_browser browser Undefined) s"
    by (simp add: d lo co sch call_tool_def t)
  have handed: "(\<exists>rest. calls (call_tool w (Start_browser browser opts) s) =
         Launch browser \<lparr>lo_headless = False, lo_args = None, lo_channel = None\<rparr> # rest) \<and>
      (\<forall>b. launch w browser \<lparr>lo_headless = False, lo_args = None, lo_channel = None\<rparr> = Inr b \<longrightarrow>
         (\<exists>rest. calls (call_tool w (Start_browser browser opts) s) =
            Launch browser \<lparr>lo_headless = False, lo_args = None, lo_channel = None\<rparr> #
            NewContext b \<lparr>co_viewport = None, co_userAgent = None\<rparr> # rest) \<and>
         (\<forall>cx p. newContext w b \<lparr>co_viewport = None, co_userAgent = None\<rparr> = Inr cx \<and>
              newPage w cx = Inr p \<longrightarrow>
            call_tool w (Start_browser browser opts) s =
              \<lparr>envelope = [text_block (''Browser started with session_id: '' @
                   sessionId_of browser (date_now w))],
               post = s\<lparr>browsers :=
                          Map_set (Some (sessionId_of browser (date_now w))) b (browsers s),
                        contexts :=
                          Map_set (Some (sessionId_of browser (date_now w))) cx (contexts s),
                        pages := Map_set (Some (sessionId_of browser (date_now w))) p (pages s),
                        currentSession := Some (sessionId_of browser (date_now w))\<rparr>,
               calls = [Launch browser \<lparr>lo_headless = False, lo_args = None, lo_channel = None\<rparr>,
                        NewContext b \<lparr>co_viewport = None, co_userAgent = None\<rparr>,
                        NewPage cx]\<rparr>))"
    if k: "browser = ''chromium'' \<or> browser = ''firefox'' \<or> browser = ''webkit''"
      and o: "opts = Undefined \<or> opts = Null \<or> opts = Obj empty_options"
  proof -
    from o have l: "launchOptions_of (default_options opts) =
        \<lparr>lo_headless = False, lo_args = None, lo_channel = None\<rparr>"
      and c: "contextOptions_of (default_options opts) =
        \<lparr>co_viewport = None, co_userAgent = None\<rparr>"
      by (auto simp: d lo co)
    show ?thesis
    proof (intro conjI allI impI)
      from start_browser_launches [OF k, of w opts s]
      show "\<exists>rest. calls (call_tool w (Start_browser browser opts) s) =
         Launch browser \<lparr>lo_headless = False, lo_args = None, lo_channel = None\<rparr> # rest"
        by (simp only: l)
    next
      fix b
      assume "launch w browser \<lparr>lo_headless = False, lo_args = None, lo_channel = None\<rparr> = Inr b"
      then have "launch w browser (launchOptions_of (default_options opts)) = Inr b"
        by (simp only: l)
      from start_browser_creates_context [OF k this, of s]
      show "\<exists>rest. calls (call_tool w (Start_browser browser opts) s) =
            Launch browser \<lparr>lo_headless = False, lo_args = None, lo_channel = None\<rparr> #
            NewContext b \<lparr>co_viewport = None, co_userAgent = None\<rparr> # rest"
        by (simp only: l c)
    next
      fix b cx p
      assume "launch w browser \<lparr>lo_headless = False, lo_args = None, lo_channel = None\<rparr> = Inr b"
        and "newContext w b \<lparr>co_viewport = None, co_userAgent = None\<rparr> = Inr cx \<and>
              newPage w cx = Inr p"
      then have "launch w browser (launchOptions_of (default_options opts)) = Inr b"
        and "newContext w b (contextOptions_of (default_options opts)) = Inr cx"
        and "newPage w cx = Inr p"
        by (simp_all only: l c)
      from start_browser_resolved [OF k this, of s]
      show "call_tool w (Start_browser browser opts) s =
              \<lparr>envelope = [text_block (''Browser started with session_id: '' @
                   sessionId_of browser (date_now w))],
               post = s\<lparr>browsers :=
                          Map_set (Some (sessionId_of browser (date_now w))) b (browsers s),
                        contexts :=
                          Map_set (Some (sessionId_of browser (date_now w))) cx (contexts s),
                        pages := Map_set (Some (sessionId_of browser (date_now w))) p (pages s),
                        currentSession := Some (sessionId_of browser (date_now w))\<rparr>,
               calls = [Launch browser \<lparr>lo_headless = False, lo_args = None, lo_channel = None\<rparr>,
                        NewContext b \<lparr>co_viewport = None, co_userAgent = None\<rparr>,
                        NewPage cx]\<rparr>"
        by (simp only: l c)
    qed
  qed
  from equal handed show ?thesis
    by blast
qed

theorem start_browser_default_options_witness:
  "launch ok_driver ''chromium'' \<lparr>lo_headless = False, lo_args = None, lo_channel = None\<rparr> = Inr 1 \<and>
   newContext ok_driver 1 \<lparr>co_viewport = None, co_userAgent = None\<rparr> = Inr 2 \<and>
   newPage ok_driver 2 = Inr 3 \<and>
   call_tool ok_driver (Start_browser ''chromium'' Null) initial_state =
     \<lparr>envelope = [text_block ''Browser started with session_id: chromium_5''],
      post = \<lparr>browsers = [(Some ''chromium_5'', 1)], contexts = [(Some ''chromium_5'', 2)],
              pages = [(Some ''chromium_5'', 3)], currentSession = Some ''chromium_5''\<rparr>,
      calls = [Launch ''chromium'' \<lparr>lo_headless = False, lo_args = None, lo_channel = None\<rparr>,
               NewContext 1 \<lparr>co_viewport = None, co_userAgent = None\<rparr>, NewPage 2]\<rparr>"
proof -
  have l: "launch ok_driver ''chromium''
      \<lparr>lo_headless = False, lo_args = None, lo_channel = None\<rparr> = Inr 1"
    and c: "newContext ok_driver 1 \<lparr>co_viewport = None, co_userAgent = None\<rparr> = Inr 2"
    and p: "newPage ok_driver 2 = Inr 3"
    by (simp_all add: ok_driver_def)
  have i: "sessionId_of ''chromium'' (date_now ok_driver) = ''chromium_5''"
    by (simp add: sessionId_of_def ok_driver_def digit_char_def)
  note t = start_browser_default_options [of ok_driver "''chromium''" initial_state Null]
  from t have "\<forall>b. launch ok_driver ''chromium''
        \<lparr>lo_headless = False, lo_args = None, lo_channel = None\<rparr> = Inr b \<longrightarrow>
      (\<forall>cx p. newContext ok_driver b \<lparr>co_viewport = None, co_userAgent = None\<rparr> = Inr cx \<and>
           newPage ok_driver cx = Inr p \<longrightarrow>
         call_tool ok_driver (Start_browser ''chromium'' Null) initial_state =
           \<lparr>envelope = [text_block (''Browser started with session_id: '' @
                sessionId_of ''chromium'' (date_now ok_driver))],
            post = initial_state\<lparr>browsers :=
                       Map_set (Some (sessionId_of ''chromium'' (date_now ok_driver))) b
                         (browsers initial_state),
                     contexts :=
                       Map_set (Some (sessionId_of ''chromium'' (date_now ok_driver))) cx
                         (contexts initial_state),
                     pages := Map_set (Some (sessionId_of ''chromium'' (date_now ok_driver))) p
                         (pages initial_state),
                     currentSession := Some (sessionId_of ''chromium'' (date_now ok_driver))\<rparr>,
            calls = [Launch ''chromium'' \<lparr>lo_headless = False, lo_args = None, lo_channel = None\<rparr>,
                     NewContext b \<lparr>co_viewport = None, co_userAgent = None\<rparr>,
                     NewPage cx]\<rparr>)"
    by blast
  with l c p have "call_tool ok_driver (Start_browser ''chromium'' Null) initial_state =
           \<lparr>envelope = [text_block (''Browser started with session_id: '' @
                sessionId_of ''chromium'' (date_now ok_driver))],
            post = initial_state\<lparr>browsers :=
                       Map_set (Some (sessionId_of ''chromium'' (date_now ok_driver))) 1
                         (browsers initial_state),
                     contexts :=
                       Map_set (Some (sessionId_of ''chromium'' (date_now ok_driver))) 2
                         (contexts initial_state),
                     pages := Map_set (Some (sessionId_of ''chromium'' (date_now ok_driver))) 3
                         (pages initial_state),
                     currentSession := Some (sessionId_of ''chromium'' (date_now ok_driver))\<rparr>,
            calls = [Launch ''chromium'' \<lparr>lo_headless = False, lo_args = None, lo_channel = None\<rparr>,
                     NewContext 1 \<lparr>co_viewport = None, co_userAgent = None\<rparr>,
                     NewPage 2]\<rparr>"
    by blast
  then have "call_tool ok_driver (Start_browser ''chromium'' Null) initial_state =
     \<lparr>envelope = [text_block ''Browser started with session_id: chromium_5''],
      post = \<lparr>browsers = [(Some ''chromium_5'', 1)], contexts = [(Some ''chromium_5'', 2)],
              pages = [(Some ''chromium_5'', 3)], currentSession = Some ''chromium_5''\<rparr>,
      calls = [Launch ''chromium'' \<lparr>lo_headless = False, lo_args = None, lo_channel = None\<rparr>,
               NewContext 1 \<lparr>co_viewport = None, co_userAgent = None\<rparr>, NewPage 2]\<rparr>"
    by (simp add: i initial_state_def Map_set_def)
  with l c p show ?thesis
    by simp
qed

subsection \<open>\<open>get_element_text\<close> on an element without text\<close>

text \<open>
  Claim C10. When there is an active page and the driver's \<open>textContent\<close> resolves to
  \<open>null\<close>, \<open>get_element_text\<close> returns one text block whose text is the empty string
  (not the word \<open>null\<close>, not an error), after that one driver operation, with the state
  unchanged.
\<close>

theorem get_element_text_null:
  assumes "Map_get (currentSession s) (pages s) = Some page"
    and "textContent w page selector (dflt 10000 timeout) = Inr None"
  shows "call_tool w (Get_element_text selector timeout) s =
     \<lparr>envelope = [text_block ''''], post = s,
      calls = [TextContent page selector (dflt 10000 timeout)]\<rparr>"
  using assms
  by (simp add: call_tool_def get_element_text_try_def getPage_Some bind_ret bind_invoke_Inr
      truthy_def Let_def) (simp add: ret_def catch_def)

theorem get_element_text_null_witness:
  "Map_get (currentSession started) (pages started) = Some 3 \<and>
   textContent ok_driver 3 ''h1'' (dflt 10000 None) = Inr None \<and>
   call_tool ok_driver (Get_element_text ''h1'' None) started =
     \<lparr>envelope = [\<lparr>ctype = ''text'', ctext = ''''\<rparr>], post = started,
      calls = [TextContent 3 ''h1'' 10000]\<rparr>"
proof -
  have p: "Map_get (currentSession started) (pages started) = Some 3"
    by (simp add: started_eq Map_get_def)
  have t: "textContent ok_driver 3 ''h1'' (dflt 10000 None) = Inr None"
    by (simp add: ok_driver_def)
  from get_element_text_null [OF p t] p t show ?thesis
    by (simp add: dflt_def text_block_def)
qed

subsection \<open>\<open>close_session\<close>, once and again\<close>

lemma close_session_no_session:
  assumes "reachable s" and "currentSession s = None"
  shows "call_tool w Close_session s =
     \<lparr>envelope = [text_block ''Browser session null closed''], post = s, calls = []\<rparr>"
proof -
  from reachable_inv [OF assms(1)]
  have n: "\<not> Map_has None (browsers s)" "\<not> Map_has None (contexts s)" "\<not> Map_has None (pages s)"
    by (simp_all add: registry_inv_def)
  have g: "Map_get None (browsers s) = None"
    using n(1) by (simp add: Map_get_absent)
  have "s\<lparr>currentSession := currentSession s\<rparr> = s"
    by simp
  with assms(2) have u: "s\<lparr>currentSession := None\<rparr> = s"
    by simp
  have "close_session_try w s =
     ret ([text_block ''Browser session null closed''], s)"
    using n assms(2)
    by (simp add: close_session_try_def g u bind_ret Let_def Map_delete_absent show_session_def)
  then show ?thesis
    by (simp add: call_tool_def catch_def ret_def)
qed

lemma close_session_resolved:
  assumes "Map_get (currentSession s) (browsers s) = Some browser"
    and "browser_close w browser = Inr ()"
  shows "call_tool w Close_session s =
     \<lparr>envelope = [text_block (''Browser session '' @ show_session (currentSession s) @ '' closed'')],
      post = s\<lparr>browsers := Map_delete (currentSession s) (browsers s),
               contexts := Map_delete (currentSession s) (contexts s),
               pages := Map_delete (currentSession s) (pages s),
               currentSession := None\<rparr>,
      calls = [BrowserClose browser]\<rparr>"
  using assms
  by (simp add: call_tool_def close_session_try_def bind_invoke_Inr Let_def)
     (simp add: ret_def catch_def)

text \<open>A close that rejects leaves the session registered and the pointer on it.\<close>

lemma close_session_rejected:
  assumes "Map_get (currentSession s) (browsers s) = Some browser"
    and "browser_close w browser = Inl msg"
  shows "call_tool w Close_session s =
     \<lparr>envelope = [text_block (''Error closing session: '' @ msg)], post = s,
      calls = [BrowserClose browser]\<rparr>"
  using assms
  by (simp add: call_tool_def close_session_try_def bind_invoke_Inl catch_def)

lemma not_reported: "\<not> reports_no_active_session [text_block ''Browser session null closed'']"
  by (simp add: reports_no_active_session_def text_block_def endsWith_def)

text \<open>
  Claim C2, as the code has it. In a reachable state with an active session whose
  browser the driver closes, \<open>close_session\<close> invokes that one close, returns
  \<open>Browser session <id> closed\<close>, deletes the id from the three maps and clears the
  pointer. A \<open>close_session\<close> right after it (the pointer is empty) does not fail and
  does not mention a missing session: the guard \<open>if (browser)\<close> skips the close, the
  deletes change nothing, and the handler returns the one block of its success path, with
  the empty pointer printed as \<open>null\<close>; no driver operation, state unchanged.
\<close>

theorem close_session_twice:
  assumes "reachable s" and "currentSession s = Some sessionId"
    and "Map_get (Some sessionId) (browsers s) = Some browser"
    and "browser_close w browser = Inr ()"
  shows "call_tool w Close_session s =
     \<lparr>envelope = [text_block (''Browser session '' @ sessionId @ '' closed'')],
      post = s\<lparr>browsers := Map_delete (Some sessionId) (browsers s),
               contexts := Map_delete (Some sessionId) (contexts s),
               pages := Map_delete (Some sessionId) (pages s),
               currentSession := None\<rparr>,
      calls = [BrowserClose browser]\<rparr> \<and>
    call_tool w' Close_session (post (call_tool w Close_session s)) =
     \<lparr>envelope = [text_block ''Browser session null closed''],
      post = post (call_tool w Close_session s), calls = []\<rparr> \<and>
    \<not> reports_no_active_session
        (envelope (call_tool w' Close_session (post (call_tool w Close_session s))))"
proof -
  have first: "call_tool w Close_session s =
     \<lparr>envelope = [text_block (''Browser session '' @ sessionId @ '' closed'')],
      post = s\<lparr>browsers := Map_delete (Some sessionId) (browsers s),
               contexts := Map_delete (Some sessionId) (contexts s),
               pages := Map_delete (Some sessionId) (pages s),
               currentSession := None\<rparr>,
      calls = [BrowserClose browser]\<rparr>"
    using close_session_resolved [of s browser w] assms(2,3,4)
    by (simp add: show_session_def)
  have r: "reachable (post (call_tool w Close_session s))"
    by (rule reachable.tool [OF assms(1)])
  have p: "currentSession (post (call_tool w Close_session s)) = None"
    by (simp add: first)
  have second: "call_tool w' Close_session (post (call_tool w Close_session s)) =
     \<lparr>envelope = [text_block ''Browser session null closed''],
      post = post (call_tool w Close_session s), calls = []\<rparr>"
    by (rule close_session_no_session [OF r p])
  have "\<not> reports_no_active_session
        (envelope (call_tool w' Close_session (post (call_tool w Close_session s))))"
    by (simp add: second not_reported)
  with first second show ?thesis by simp
qed

theorem close_session_twice_witness:
  "reachable started \<and> currentSession started = Some ''chromium_5'' \<and>
   Map_get (Some ''chromium_5'') (browsers started) = Some 1 \<and>
   browser_close ok_driver 1 = Inr () \<and>
   call_tool ok_driver Close_session started =
     \<lparr>envelope = [text_block ''Browser session chromium_5 closed''],
      post = initial_state, calls = [BrowserClose 1]\<rparr> \<and>
   call_tool ok_driver Close_session initial_state =
     \<lparr>envelope = [text_block ''Browser session null closed''],
      post = initial_state, calls = []\<rparr>"
proof -
  have p: "currentSession started = Some ''chromium_5''"
    and g: "Map_get (Some ''chromium_5'') (browsers started) = Some 1"
    by (simp_all add: started_eq Map_get_def)
  have c: "browser_close ok_driver 1 = Inr ()"
    by (simp add: ok_driver_def)
  have e: "started\<lparr>browsers := Map_delete (Some ''chromium_5'') (browsers started),
               contexts := Map_delete (Some ''chromium_5'') (contexts started),
               pages := Map_delete (Some ''chromium_5'') (pages started),
               currentSession := None\<rparr> = initial_state"
    by (simp add: started_eq initial_state_def Map_delete_def AList.delete_eq)
  note t = close_session_twice [OF reachable_started p g c, of ok_driver]
  from t have first: "call_tool ok_driver Close_session started =
     \<lparr>envelope = [text_block ''Browser session chromium_5 closed''],
      post = initial_state, calls = [BrowserClose 1]\<rparr>"
    by (simp add: e)
  have second: "call_tool ok_driver Close_session initial_state =
     \<lparr>envelope = [text_block ''Browser session null closed''],
      post = initial_state, calls = []\<rparr>"
    using t [THEN conjunct2, THEN conjunct1] unfolding first by simp
  from first second reachable_started p g c show ?thesis
    by simp
qed

text \<open>
  The claim as stated (the second consecutive call reports that there is no active
  session) fails after one \<open>start_browser\<close> and one \<open>close_session\<close>.
\<close>

theorem close_session_twice_counterexample:
  "currentSession started = Some ''chromium_5'' \<and>
   envelope (call_tool ok_driver Close_session started) =
     [text_block ''Browser session chromium_5 closed''] \<and>
   currentSession (post (call_tool ok_driver Close_session started)) = None \<and>
   envelope (call_tool ok_driver Close_session (post (call_tool ok_driver Close_session started))) =
     [text_block ''Browser session null closed''] \<and>
   \<not> reports_no_active_session
     (envelope (call_tool ok_driver Close_session (post (call_tool ok_driver Close_session started))))"
proof -
  have g: "Map_get (currentSession started) (browsers started) = Some 1"
    by (simp add: started_eq Map_get_def)
  have c: "browser_close ok_driver 1 = Inr ()"
    by (simp add: ok_driver_def)
  have first: "post (call_tool ok_driver Close_session started) = initial_state"
    by (simp add: close_session_resolved [OF g c])
       (simp add: started_eq initial_state_def Map_delete_def AList.delete_eq)
  have second: "call_tool ok_driver Close_session initial_state =
     \<lparr>envelope = [text_block ''Browser session null closed''], post = initial_state, calls = []\<rparr>"
    by (rule close_session_no_session [OF reachable.start]) (simp add: initial_state_def)
  have e: "envelope (call_tool ok_driver Close_session started) =
     [text_block ''Browser session chromium_5 closed'']"
    by (simp add: close_session_resolved [OF g c]) (simp add: started_eq show_session_def)
  have p: "currentSession started = Some ''chromium_5''"
    by (simp add: started_eq)
  show ?thesis
    by (simp add: first second not_reported e p) (simp add: initial_state_def)
qed

subsection \<open>The shape of the envelope\<close>









subsection \<open>Registering a session under a present id\<close>

text \<open>
  Claim C5, as the code has it. \<open>start_browser\<close> makes no check for a present id: when
  the launch, the context and the page resolve and the generated id is already a key of
  the registry, the call still succeeds, the id now maps to the new browser, context and
  page (the old entry is overwritten in place: the keys of \<open>browsers\<close> are as before),
  and the pointer is the id.
\<close>

theorem start_browser_overwrites:
  assumes "browser = ''chromium'' \<or> browser = ''firefox'' \<or> browser = ''webkit''"
    and "launch w browser (launchOptions_of (default_options opts)) = Inr b"
    and "newContext w b (contextOptions_of (default_options opts)) = Inr cx"
    and "newPage w cx = Inr p"
    and "Map_has (Some (sessionId_of browser (date_now w))) (browsers s)"
  shows "envelope (call_tool w (Start_browser browser opts) s) =
       [text_block (''Browser started with session_id: '' @ sessionId_of browser (date_now w))] \<and>
     Map_get (Some (sessionId_of browser (date_now w)))
       (browsers (post (call_tool w (Start_browser browser opts) s))) = Some b \<and>
     Map_get (Some (sessionId_of browser (date_now w)))
       (contexts (post (call_tool w (Start_browser browser opts) s))) = Some cx \<and>
     Map_get (Some (sessionId_of browser (date_now w)))
       (pages (post (call_tool w (Start_browser browser opts) s))) = Some p \<and>
     map fst (browsers (post (call_tool w (Start_browser browser opts) s))) =
       map fst (browsers s) \<and>
     currentSession (post (call_tool w (Start_browser browser opts) s)) =
       Some (sessionId_of browser (date_now w))"
proof -
  from assms(5) have "map fst (Map_set (Some (sessionId_of browser (date_now w))) b (browsers s)) =
      map fst (browsers s)"
    by (simp add: Map_has_def Map_set_def update_keys)
  then show ?thesis
    by (simp add: start_browser_resolved [OF assms(1,2,3,4)] Map_get_set)
qed

theorem start_browser_overwrites_witness:
  "launch other_driver ''chromium'' (launchOptions_of (default_options Undefined)) = Inr 11 \<and>
   newContext other_driver 11 (contextOptions_of (default_options Undefined)) = Inr 12 \<and>
   newPage other_driver 12 = Inr 13 \<and>
   Map_has (Some (sessionId_of ''chromium'' (date_now other_driver))) (browsers started) \<and>
   sessionId_of ''chromium'' (date_now other_driver) = ''chromium_5'' \<and>
   Map_get (Some ''chromium_5'') (browsers started) = Some 1 \<and>
   Map_get (Some ''chromium_5'')
     (browsers (post (call_tool other_driver (Start_browser ''chromium'' Undefined) started))) =
     Some 11 \<and>
   map fst (browsers (post (call_tool other_driver (Start_browser ''chromium'' Undefined) started)))
     = [Some ''chromium_5'']"
proof -
  have k: "''chromium'' = ''chromium'' \<or> ''chromium'' = ''firefox'' \<or> ''chromium'' = ''webkit''"
    by simp
  have l: "launch other_driver ''chromium'' (launchOptions_of (default_options Undefined)) = Inr 11"
    and c: "newContext other_driver 11 (contextOptions_of (default_options Undefined)) = Inr 12"
    and p: "newPage other_driver 12 = Inr 13"
    by (simp_all add: other_driver_def ok_driver_def)
  have i: "sessionId_of ''chromium'' (date_now other_driver) = ''chromium_5''"
    by (simp add: sessionId_of_def other_driver_def ok_driver_def digit_char_def)
  have h: "Map_has (Some (sessionId_of ''chromium'' (date_now other_driver))) (browsers started)"
    by (simp add: i started_eq Map_has_def)
  have g: "Map_get (Some ''chromium_5'') (browsers started) = Some 1"
    and f: "map fst (browsers started) = [Some ''chromium_5'']"
    by (simp_all add: started_eq Map_get_def)
  from start_browser_overwrites [OF k l c p h] l c p h i g f show ?thesis
    by simp
qed

text \<open>
  The claim as stated (a failure envelope instead of an overwrite) fails for two
  \<open>start_browser\<close> calls of the same kind at the same clock reading.
\<close>

theorem duplicate_session_counterexample:
  "Map_has (Some ''chromium_5'') (browsers started) \<and>
   call_tool other_driver (Start_browser ''chromium'' Undefined) started =
     \<lparr>envelope = [text_block ''Browser started with session_id: chromium_5''],
      post = \<lparr>browsers = [(Some ''chromium_5'', 11)], contexts = [(Some ''chromium_5'', 12)],
              pages = [(Some ''chromium_5'', 13)], currentSession = Some ''chromium_5''\<rparr>,
      calls = [Launch ''chromium'' \<lparr>lo_headless = False, lo_args = None, lo_channel = None\<rparr>,
               NewContext 11 \<lparr>co_viewport = None, co_userAgent = None\<rparr>, NewPage 12]\<rparr>"
  by (simp add: started_eq Map_has_def call_tool_def catch_def start_browser_try_def io_defs
      ok_driver_def other_driver_def
      launch_browser_def default_options_def launchOptions_of_def contextOptions_of_def
      optional_def empty_options_def dflt_def truthy_def sessionId_of_def
      Map_set_def digit_char_def Let_def)

subsection \<open>\<open>take_screenshot\<close>\<close>

lemma take_screenshot_resolved:
  assumes "Map_get (currentSession s) (pages s) = Some page"
    and "screenshot w page (screenshot_options_of outputPath (dflt False fullPage)) = Inr shot"
  shows "call_tool w (Take_screenshot outputPath fullPage) s =
     \<lparr>envelope =
        (if truthy outputPath then [text_block (''Screenshot saved to '' @ dflt [] outputPath)]
         else [text_block ''Screenshot captured as base64:'', text_block (base64 shot)]),
      post = s,
      calls = [Screenshot page (screenshot_options_of outputPath (dflt False fullPage))]\<rparr>"
  using assms
  by (simp add: call_tool_def take_screenshot_try_def getPage_Some bind_ret bind_invoke_Inr Let_def)
     (simp add: ret_def catch_def)

text \<open>
  Claim C7, as the code has it. With an active page and a screenshot that resolves: the
  driver receives \<open>outputPath\<close> as \<open>path\<close>, and the type \<open>jpeg\<close> exactly when an
  \<open>outputPath\<close> is given and ends in \<open>.jpg\<close>, \<open>png\<close> otherwise; the envelope
  reports the path when \<open>outputPath\<close> is a non-empty string, and carries the caption and
  the base64 encoding of the bytes when \<open>outputPath\<close> is absent or the empty string.
\<close>

theorem take_screenshot_output:
  assumes "Map_get (currentSession s) (pages s) = Some page"
    and "screenshot w page
           \<lparr>so_path = outputPath, so_fullPage = dflt False fullPage,
            so_type = (if \<exists>p. outputPath = Some p \<and> endsWith p ''.jpg'' then ''jpeg'' else ''png'')\<rparr>
         = Inr shot"
  shows "call_tool w (Take_screenshot outputPath fullPage) s =
     \<lparr>envelope =
        (case outputPath of
           None \<Rightarrow> [text_block ''Screenshot captured as base64:'', text_block (base64 shot)]
         | Some p \<Rightarrow>
             if p = [] then
               [text_block ''Screenshot captured as base64:'', text_block (base64 shot)]
             else [text_block (''Screenshot saved to '' @ p)]),
      post = s,
      calls = [Screenshot page
        \<lparr>so_path = outputPath, so_fullPage = dflt False fullPage,
         so_type = (if \<exists>p. outputPath = Some p \<and> endsWith p ''.jpg'' then ''jpeg'' else ''png'')\<rparr>]\<rparr>"
proof -
  have o: "screenshot_options_of outputPath (dflt False fullPage) =
      \<lparr>so_path = outputPath, so_fullPage = dflt False fullPage,
       so_type = (if \<exists>p. outputPath = Some p \<and> endsWith p ''.jpg'' then ''jpeg'' else ''png'')\<rparr>"
    by (cases outputPath) (simp_all add: screenshot_options_of_def)
  have e: "(if truthy outputPath then [text_block (''Screenshot saved to '' @ dflt [] outputPath)]
         else [text_block ''Screenshot captured as base64:'', text_block (base64 shot)]) =
        (case outputPath of
           None \<Rightarrow> [text_block ''Screenshot captured as base64:'', text_block (base64 shot)]
         | Some p \<Rightarrow>
             if p = [] then
               [text_block ''Screenshot captured as base64:'', text_block (base64 shot)]
             else [text_block (''Screenshot saved to '' @ p)])"
    by (cases outputPath) (simp_all add: truthy_def dflt_def)
  from assms(2) have "screenshot w page (screenshot_options_of outputPath (dflt False fullPage)) =
      Inr shot"
    by (simp only: o)
  from take_screenshot_resolved [OF assms(1) this] show ?thesis
    by (simp only: o e)
qed


theorem take_screenshot_output_witness:
  "Map_get (currentSession started) (pages started) = Some 3 \<and>
   screenshot ok_driver 3
     \<lparr>so_path = Some ''/tmp/shot.jpg'', so_fullPage = False, so_type = ''jpeg''\<rparr> =
     Inr [0x89, 0x50, 0x4E, 0x47] \<and>
   call_tool ok_driver (Take_screenshot (Some ''/tmp/shot.jpg'') None) started =
     \<lparr>envelope = [text_block ''Screenshot saved to /tmp/shot.jpg''], post = started,
      calls = [Screenshot 3
        \<lparr>so_path = Some ''/tmp/shot.jpg'', so_fullPage = False, so_type = ''jpeg''\<rparr>]\<rparr>"
proof -
  have p: "Map_get (currentSession started) (pages started) = Some 3"
    by (simp add: started_eq Map_get_def)
  have d: "screenshot ok_driver 3
     \<lparr>so_path = Some ''/tmp/shot.jpg'', so_fullPage = dflt False None,
      so_type = (if \<exists>p. Some ''/tmp/shot.jpg'' = Some p \<and> endsWith p ''.jpg''
                 then ''jpeg'' else ''png'')\<rparr> = Inr [0x89, 0x50, 0x4E, 0x47]"
    by (simp add: ok_driver_def)
  have j: "endsWith ''/tmp/shot.jpg'' ''.jpg''"
    by (simp add: endsWith_def)
  from take_screenshot_output [OF p d] p show ?thesis
    by (simp add: j dflt_def) (simp add: ok_driver_def)
qed

text \<open>
  The claim as stated (a supplied \<open>outputPath\<close> is reported in the envelope) fails for
  the empty string, which \<open>if (outputPath)\<close> takes as absent.
\<close>

theorem take_screenshot_output_counterexample:
  "call_tool ok_driver (Take_screenshot (Some '''') None) started =
     \<lparr>envelope = [text_block ''Screenshot captured as base64:'', text_block ''iVBORw==''],
      post = started,
      calls = [Screenshot 3 \<lparr>so_path = Some '''', so_fullPage = False, so_type = ''png''\<rparr>]\<rparr>"
proof -
  have p: "Map_get (currentSession started) (pages started) = Some 3"
    by (simp add: started_eq Map_get_def)
  have d: "screenshot ok_driver 3 (screenshot_options_of (Some '''') (dflt False None)) =
     Inr [0x89, 0x50, 0x4E, 0x47]"
    by (simp add: ok_driver_def)
  have o: "screenshot_options_of (Some '''') (dflt False None) =
     \<lparr>so_path = Some '''', so_fullPage = False, so_type = ''png''\<rparr>"
    by (simp add: screenshot_options_of_def dflt_def endsWith_def)
  show ?thesis
    by (simp add: take_screenshot_resolved [OF p d] o truthy_def b64_char_def)
qed

subsection \<open>Who assigns the pointer\<close>

text \<open>
  Claim C9, as the code has it. The sixteen tools on the active page leave the pointer
  as it was; \<open>start_browser\<close> leaves it or sets it to the new id; \<open>close_session\<close>
  leaves it or clears it; and the shutdown cleanup clears it too. (The status resource
  \<^const>\<open>browser_status\<close> only reads the state.)
\<close>

theorem pointer_writers:
  "(requires_page c \<longrightarrow>
      currentSession (post (call_tool w c s)) = currentSession s) \<and>
   (currentSession (post (call_tool w (Start_browser browser opts) s)) = currentSession s \<or>
    currentSession (post (call_tool w (Start_browser browser opts) s)) =
      Some (sessionId_of browser (date_now w))) \<and>
   (currentSession (post (call_tool w Close_session s)) = currentSession s \<or>
    currentSession (post (call_tool w Close_session s)) = None) \<and>
   currentSession (final (process_on sig w s)) = None"
proof (intro conjI impI)
  assume "requires_page c"
  then show "currentSession (post (call_tool w c s)) = currentSession s"
    by (simp add: page_tool_post)
next
  from start_browser_post [of w browser opts s]
  show "currentSession (post (call_tool w (Start_browser browser opts) s)) = currentSession s \<or>
    currentSession (post (call_tool w (Start_browser browser opts) s)) =
      Some (sessionId_of browser (date_now w))"
  proof (elim disjE exE)
    assume "post (call_tool w (Start_browser browser opts) s) = s"
    then show ?thesis by simp
  next
    fix b cx p
    assume "post (call_tool w (Start_browser browser opts) s) =
        s\<lparr>browsers := Map_set (Some (sessionId_of browser (date_now w))) b (browsers s),
          contexts := Map_set (Some (sessionId_of browser (date_now w))) cx (contexts s),
          pages := Map_set (Some (sessionId_of browser (date_now w))) p (pages s),
          currentSession := Some (sessionId_of browser (date_now w))\<rparr>"
    then show ?thesis by simp
  qed
next
  from close_session_post [of w s]
  show "currentSession (post (call_tool w Close_session s)) = currentSession s \<or>
    currentSession (post (call_tool w Close_session s)) = None"
  proof (elim disjE)
    assume "post (call_tool w Close_session s) = s"
    then show ?thesis by simp
  next
    assume "post (call_tool w Close_session s) =
        s\<lparr>browsers := Map_delete (currentSession s) (browsers s),
          contexts := Map_delete (currentSession s) (contexts s),
          pages := Map_delete (currentSession s) (pages s),
          currentSession := None\<rparr>"
    then show ?thesis by simp
  qed
next
  show "currentSession (final (process_on sig w s)) = None"
    by (simp add: cleanup_final initial_state_def)
qed

theorem pointer_writers_witness:
  "requires_page (Navigate ''https://example.com'' None) \<and>
   currentSession (post (call_tool ok_driver (Navigate ''https://example.com'' None) started)) =
     Some ''chromium_5'' \<and>
   currentSession (final (process_on SIGINT ok_driver started)) = None"
  using pointer_writers [of "Navigate ''https://example.com'' None" ok_driver started
      "''firefox''" Null SIGINT]
  by (simp add: started_eq)

text \<open>
  The claim as stated (only the two handlers assign the pointer) fails: the cleanup
  clears a pointer that holds an id.
\<close>

theorem pointer_writers_counterexample:
  "currentSession started = Some ''chromium_5'' \<and>
   currentSession (final (process_on SIGINT ok_driver started)) = None"
  by (simp add: started_eq cleanup_def Let_def split: prod.splits)

end
